theory Spec2Isabelle
  imports Main
begin

section \<open>JavaScript values used by the client\<close>

text \<open>
  Strings are character lists. A value of type \<^verbatim>\<open>string | undefined\<close> (or
  \<^verbatim>\<open>string | null\<close>) that is one of the two at run time is a \<open>string option\<close>. The
  conditions of the client test such values for truthiness: \<^verbatim>\<open>undefined\<close>, \<^verbatim>\<open>null\<close>
  and the empty string are falsy, every other string is truthy.
\<close>

definition truthy_string :: "string option \<Rightarrow> bool" where
  "truthy_string v = (case v of None \<Rightarrow> False | Some t \<Rightarrow> t \<noteq> [])"

text \<open>
  The field \<^verbatim>\<open>accessToken\<close> is declared \<^verbatim>\<open>string | undefined\<close>, but it is assigned
  what \<^verbatim>\<open>data.access_token\<close> evaluates to on a parsed body of type \<^verbatim>\<open>any\<close>, which
  nothing checks. Such a value is \<^verbatim>\<open>undefined\<close>, a string, or something else (null, a
  boolean, a number, an array, an object); of the last kind only the truthiness matters
  to the client, so it is kept by its truthiness.
\<close>

datatype js_value = Undefined | Str string | NonString bool

fun truthy :: "js_value \<Rightarrow> bool" where
  "truthy Undefined = False"
| "truthy (Str t) = (t \<noteq> [])"
| "truthy (NonString b) = b"

text \<open>
  \<^verbatim>\<open>String.prototype.trim\<close> removes the white space and line terminators at both ends.
  Characters are eight bits wide here, so the code points covered are TAB, LF, VT, FF, CR,
  SP and NBSP; white space beyond U+00FF is outside the model.
\<close>

definition is_white_space :: "char \<Rightarrow> bool" where
  "is_white_space c =
     (c = CHR 0x09 \<or> c = CHR 0x0A \<or> c = CHR 0x0B \<or> c = CHR 0x0C \<or> c = CHR 0x0D \<or>
      c = CHR 0x20 \<or> c = CHR 0xA0)"

definition trim :: "string \<Rightarrow> string" where
  "trim t = rev (dropWhile is_white_space (rev (dropWhile is_white_space t)))"

section \<open>The network\<close>

text \<open>
  The client talks to two external servers through \<^verbatim>\<open>fetch\<close>: a POST of the client
  credentials to the authentication endpoint, and a GET of a resource URL carrying
  \<^verbatim>\<open>Authorization: Bearer token\<close>. A request is recorded by what distinguishes it.
\<close>

datatype request =
    AuthPost string string    \<comment> \<open>client id, client secret\<close>
  | ResourceGet string string \<comment> \<open>url, bearer token\<close>

text \<open>
  A parsed JSON body. The client reads one property of it, \<^verbatim>\<open>access_token\<close>, and hands
  the rest on unread: the value is \<^verbatim>\<open>null\<close>, on which reading a property throws, or any
  other value, given by what \<^verbatim>\<open>.access_token\<close> evaluates to on it (\<^verbatim>\<open>undefined\<close> when
  it has no such property) and by its text.
\<close>

datatype json = JsonNull | Json js_value string

text \<open>
  What \<^verbatim>\<open>fetch\<close> settles to: the promise rejects (no response), or there is a response
  with its status, its status text, and what \<^verbatim>\<open>res.json()\<close> gives: \<open>None\<close> when the body
  does not parse (the promise rejects), otherwise the parsed value.
\<close>

datatype fetch_result =
    NetworkError
  | Response nat string "json option"

text \<open>\<^verbatim>\<open>res.ok\<close>: the status is in the range 200 to 299.\<close>

definition ok :: "nat \<Rightarrow> bool" where
  "ok st = (200 \<le> st \<and> st \<le> 299)"

text \<open>
  The servers are a parameter: any function from the requests issued so far and the
  present request to the result of the present request.
\<close>

type_synonym network = "request list \<Rightarrow> request \<Rightarrow> fetch_result"

section \<open>The client and its surroundings\<close>

text \<open>
  The fields of \<^verbatim>\<open>OpenSkyClient\<close>, the file named by \<^verbatim>\<open>tokenFilePath\<close> (\<open>None\<close>
  when it does not exist, otherwise its contents), and the requests issued so far,
  oldest first. The file is a regular file the process may read, write and delete, one
  call of the client runs at a time, and what is written to the console is left out.
\<close>

record state =
  clientId :: "string option"
  clientSecret :: "string option"
  accessToken :: js_value
  tokenFile :: "string option"
  requests :: "request list"

text \<open>The errors thrown, one constructor for each \<^verbatim>\<open>throw\<close> and each rejecting call.\<close>

datatype error =
    CredentialsNotDefined
  | TokenRetrievalFailed nat string
  | ApiRequestFailed nat
  | ApiRequestFailedAfterRefresh nat
  | FetchRejected
  | JsonRejected
  | PropertyOfNull  \<comment> \<open>the TypeError of reading \<^verbatim>\<open>access_token\<close> of \<^verbatim>\<open>null\<close>\<close>
  | InvalidArgType  \<comment> \<open>the TypeError of \<^verbatim>\<open>fs.writeFileSync\<close> given data that is no string\<close>

definition OpenSkyClient ::
  "string option \<Rightarrow> string option \<Rightarrow> string option \<Rightarrow> request list \<Rightarrow> state" where
  "OpenSkyClient cid secret file reqs =
     \<lparr>clientId = cid, clientSecret = secret, accessToken = Undefined,
      tokenFile = file, requests = reqs\<rparr>"

definition fetch :: "network \<Rightarrow> request \<Rightarrow> state \<Rightarrow> fetch_result \<times> state" where
  "fetch net req s = (net (requests s) req, s\<lparr>requests := requests s @ [req]\<rparr>)"

text \<open>
  \<^verbatim>\<open>fetchAccessToken\<close> is declared to return a string; it returns \<^verbatim>\<open>data.access_token\<close>
  as it is.
\<close>

definition fetchAccessToken :: "network \<Rightarrow> state \<Rightarrow> (error + js_value) \<times> state" where
  "fetchAccessToken net s =
     (case (clientId s, clientSecret s) of
        (Some cid, Some secret) \<Rightarrow>
          if cid = [] \<or> secret = [] then (Inl CredentialsNotDefined, s)
          else
            (case fetch net (AuthPost cid secret) s of
               (NetworkError, s') \<Rightarrow> (Inl FetchRejected, s')
             | (Response st txt body, s') \<Rightarrow>
                 if \<not> ok st then (Inl (TokenRetrievalFailed st txt), s')
                 else
                   (case body of
                      None \<Rightarrow> (Inl JsonRejected, s')
                    | Some JsonNull \<Rightarrow> (Inl PropertyOfNull, s')
                    | Some (Json token text) \<Rightarrow> (Inr token, s')))
      | _ \<Rightarrow> (Inl CredentialsNotDefined, s))"

text \<open>
  \<^verbatim>\<open>loadTokenFromFile\<close>: the file exists and its size is positive (its contents are not
  empty), then the trimmed contents, else \<^verbatim>\<open>null\<close>.
\<close>

definition loadTokenFromFile :: "state \<Rightarrow> string option" where
  "loadTokenFromFile s =
     (case tokenFile s of
        None \<Rightarrow> None
      | Some contents \<Rightarrow> if contents \<noteq> [] then Some (trim contents) else None)"

definition saveTokenToFile :: "string \<Rightarrow> state \<Rightarrow> state" where
  "saveTokenToFile token s = s\<lparr>tokenFile := Some token\<rparr>"

definition clearTokenFile :: "state \<Rightarrow> state" where
  "clearTokenFile s = (if tokenFile s \<noteq> None then s\<lparr>tokenFile := None\<rparr> else s)"

text \<open>
  The tail shared by \<^verbatim>\<open>ensureValidToken\<close> and \<^verbatim>\<open>refreshToken\<close>:
  \<^verbatim>\<open>this.accessToken = await this.fetchAccessToken(); this.saveTokenToFile(this.accessToken);
  return this.accessToken\<close>. A rejection of \<^verbatim>\<open>fetchAccessToken\<close> leaves before the
  assignment. \<^verbatim>\<open>saveTokenToFile\<close> is handed whatever was assigned:
  \<^verbatim>\<open>fs.writeFileSync\<close> checks its data before it opens the file and throws for data
  that is no string, after the assignment and with the file as it was.
\<close>

definition fetchAndSave :: "network \<Rightarrow> state \<Rightarrow> (error + string) \<times> state" where
  "fetchAndSave net s =
     (case fetchAccessToken net s of
        (Inl e, s1) \<Rightarrow> (Inl e, s1)
      | (Inr token, s1) \<Rightarrow>
          (let s2 = s1\<lparr>accessToken := token\<rparr> in
           case token of
             Str t \<Rightarrow> (Inr t, saveTokenToFile t s2)
           | _ \<Rightarrow> (Inl InvalidArgType, s2)))"

text \<open>
  \<^verbatim>\<open>ensureValidToken\<close>. The guard \<^verbatim>\<open>if (!this.accessToken)\<close> encloses the load from the
  file and nothing else; in every case that does not return the loaded token, control
  reaches the fetch. A truthy \<^verbatim>\<open>tokenFromFile\<close> is not \<^verbatim>\<open>null\<close>, so the branch for
  \<open>None\<close> under it is never taken.
\<close>

definition ensureValidToken :: "network \<Rightarrow> state \<Rightarrow> (error + string) \<times> state" where
  "ensureValidToken net s =
     (if \<not> truthy (accessToken s) then
        (let tokenFromFile = loadTokenFromFile s in
         if truthy_string tokenFromFile then
           (case tokenFromFile of
              Some t \<Rightarrow> (Inr t, s\<lparr>accessToken := Str t\<rparr>)
            | None \<Rightarrow> fetchAndSave net s)
         else fetchAndSave net s)
      else fetchAndSave net s)"

text \<open>
  \<^verbatim>\<open>refreshToken\<close>: \<^verbatim>\<open>this.clearTokenFile()\<close>, then the same three statements as at
  the end of \<^verbatim>\<open>ensureValidToken\<close>.
\<close>

definition refreshToken :: "network \<Rightarrow> state \<Rightarrow> (error + string) \<times> state" where
  "refreshToken net s = fetchAndSave net (clearTokenFile s)"

text \<open>
  \<^verbatim>\<open>makeAuthenticatedRequest\<close>: the token, the GET, on 401 the refresh and the one
  retry, otherwise the check of \<^verbatim>\<open>res.ok\<close>; the value returned is the parsed body.
\<close>

definition makeAuthenticatedRequest ::
  "network \<Rightarrow> string \<Rightarrow> state \<Rightarrow> (error + json) \<times> state" where
  "makeAuthenticatedRequest net url s =
     (case ensureValidToken net s of
        (Inl e, s1) \<Rightarrow> (Inl e, s1)
      | (Inr token, s1) \<Rightarrow>
          (case fetch net (ResourceGet url token) s1 of
             (NetworkError, s2) \<Rightarrow> (Inl FetchRejected, s2)
           | (Response st txt body, s2) \<Rightarrow>
               if st = 401 then
                 (case refreshToken net s2 of
                    (Inl e, s3) \<Rightarrow> (Inl e, s3)
                  | (Inr token', s3) \<Rightarrow>
                      (case fetch net (ResourceGet url token') s3 of
                         (NetworkError, s4) \<Rightarrow> (Inl FetchRejected, s4)
                       | (Response st' txt' body', s4) \<Rightarrow>
                           if \<not> ok st' then (Inl (ApiRequestFailedAfterRefresh st'), s4)
                           else
                             (case body' of
                                None \<Rightarrow> (Inl JsonRejected, s4)
                              | Some v \<Rightarrow> (Inr v, s4))))
               else if \<not> ok st then (Inl (ApiRequestFailed st), s2)
               else
                 (case body of
                    None \<Rightarrow> (Inl JsonRejected, s2)
                  | Some v \<Rightarrow> (Inr v, s2))))"

text \<open>
  The legacy function: a new client on the present file and request history, then
  \<^verbatim>\<open>ensureValidToken\<close>.
\<close>

definition getAccessToken ::
  "network \<Rightarrow> string option \<Rightarrow> string option \<Rightarrow> string option \<Rightarrow> request list \<Rightarrow>
   (error + string) \<times> state" where
  "getAccessToken net cid secret file reqs =
     ensureValidToken net (OpenSkyClient cid secret file reqs)"

section \<open>Observations on a run\<close>

text \<open>The number of calls of the authentication endpoint among the requests issued.\<close>

fun is_auth_call :: "request \<Rightarrow> bool" where
  "is_auth_call (AuthPost cid secret) = True"
| "is_auth_call (ResourceGet url token) = False"

definition auth_calls :: "request list \<Rightarrow> nat" where
  "auth_calls reqs = length (filter is_auth_call reqs)"

text \<open>
  The states \<^verbatim>\<open>refreshToken\<close> passes through, statement by statement: at entry, after
  \<^verbatim>\<open>this.clearTokenFile()\<close>, after \<^verbatim>\<open>await this.fetchAccessToken()\<close> has settled, and
  when it fulfilled, after the assignment to \<^verbatim>\<open>this.accessToken\<close> and, when the
  save does not throw, after \<^verbatim>\<open>this.saveTokenToFile(this.accessToken)\<close>. The network
  call is awaited in the second state of the list.
\<close>

definition refreshToken_states :: "network \<Rightarrow> state \<Rightarrow> state list" where
  "refreshToken_states net s =
     (let s1 = clearTokenFile s in
      case fetchAccessToken net s1 of
        (Inl e, s2) \<Rightarrow> [s, s1, s2]
      | (Inr token, s2) \<Rightarrow>
          (let s3 = s2\<lparr>accessToken := token\<rparr> in
           case token of
             Str t \<Rightarrow> [s, s1, s2, s3, saveTokenToFile t s3]
           | _ \<Rightarrow> [s, s1, s2, s3]))"

text \<open>
  A process that stops and starts again keeps the file and loses the memory of the
  client: the new client is constructed with no access token.
\<close>

definition restart :: "state \<Rightarrow> state" where
  "restart s = OpenSkyClient (clientId s) (clientSecret s) (tokenFile s) (requests s)"

text \<open>
  What \<^verbatim>\<open>ensureValidToken\<close> of a new client would adopt from the file: the loaded
  value when it is truthy.
\<close>

definition adoptable :: "state \<Rightarrow> string option" where
  "adoptable s = (if truthy_string (loadTokenFromFile s) then loadTokenFromFile s else None)"

text \<open>
  The file mirrors the memory: when the memory holds a string, the contents of the file
  are that string, as they stand or as they are loaded, or the file offers nothing to
  adopt. A memory that holds no string asks nothing of the file.
\<close>

definition mirrored :: "state \<Rightarrow> bool" where
  "mirrored s =
     (case accessToken s of
        Str t \<Rightarrow> tokenFile s = Some t \<or> adoptable s = Some t \<or> adoptable s = None
      | _ \<Rightarrow> True)"

text \<open>The two operations on the token, to speak of both at once.\<close>

datatype token_op = EnsureValidToken | RefreshToken

fun run_op :: "network \<Rightarrow> token_op \<Rightarrow> state \<Rightarrow> (error + string) \<times> state" where
  "run_op net EnsureValidToken s = ensureValidToken net s"
| "run_op net RefreshToken s = refreshToken net s"

text \<open>
  A sequence of operations on one client, each run to completion, whether it returns or
  throws (the caller catches the error and goes on).
\<close>

fun run_ops :: "network \<Rightarrow> token_op list \<Rightarrow> state \<Rightarrow> state" where
  "run_ops net [] s = s"
| "run_ops net (op # ops) s = run_ops net ops (snd (run_op net op s))"

section \<open>Servers and clients of the examples\<close>

text \<open>
  A working pair of servers: every grant issues the token T2, and a resource is served
  to the bearer of T2 and refused (401) to anyone else.
\<close>

fun issuing_net :: "request list \<Rightarrow> request \<Rightarrow> fetch_result" where
  "issuing_net hist (AuthPost cid secret) =
     Response 200 ''OK'' (Some (Json (Str ''T2'') ''{access_token: T2}''))"
| "issuing_net hist (ResourceGet url token) =
     (if token = ''T2'' then Response 200 ''OK'' (Some (Json Undefined ''[]''))
      else Response 401 ''Unauthorized'' None)"

text \<open>Grants succeed, every resource request is refused with 401.\<close>

fun refusing_net :: "request list \<Rightarrow> request \<Rightarrow> fetch_result" where
  "refusing_net hist (AuthPost cid secret) =
     Response 200 ''OK'' (Some (Json (Str ''T2'') ''{access_token: T2}''))"
| "refusing_net hist (ResourceGet url token) = Response 401 ''Unauthorized'' None"

text \<open>Grants succeed, every resource request is answered with 404.\<close>

fun not_found_net :: "request list \<Rightarrow> request \<Rightarrow> fetch_result" where
  "not_found_net hist (AuthPost cid secret) =
     Response 200 ''OK'' (Some (Json (Str ''T2'') ''{access_token: T2}''))"
| "not_found_net hist (ResourceGet url token) = Response 404 ''Not Found'' None"

text \<open>The authentication server answers 500, every resource request is refused with 401.\<close>

fun auth_down_net :: "request list \<Rightarrow> request \<Rightarrow> fetch_result" where
  "auth_down_net hist (AuthPost cid secret) = Response 500 ''Internal Server Error'' None"
| "auth_down_net hist (ResourceGet url token) = Response 401 ''Unauthorized'' None"

text \<open>
  The authentication server answers 200 with a JSON object that has no
  \<^verbatim>\<open>access_token\<close>, every resource request is refused with 401.
\<close>

fun tokenless_net :: "request list \<Rightarrow> request \<Rightarrow> fetch_result" where
  "tokenless_net hist (AuthPost cid secret) = Response 200 ''OK'' (Some (Json Undefined ''{}''))"
| "tokenless_net hist (ResourceGet url token) = Response 401 ''Unauthorized'' None"

text \<open>A new client with credentials and no token file.\<close>

definition cold_client :: state where
  "cold_client = OpenSkyClient (Some ''id'') (Some ''secret'') None []"

text \<open>A new client with credentials and the token T1 in the file.\<close>

definition warm_client :: state where
  "warm_client = OpenSkyClient (Some ''id'') (Some ''secret'') (Some ''T1'') []"

text \<open>A new client without credentials and the token T1 in the file.\<close>

definition anonymous_client :: state where
  "anonymous_client = OpenSkyClient None None (Some ''T1'') []"

text \<open>A client that holds T1 in memory and in the file.\<close>

definition holding_client :: state where
  "holding_client =
     \<lparr>clientId = Some ''id'', clientSecret = Some ''secret'', accessToken = Str ''T1'',
      tokenFile = Some ''T1'', requests = []\<rparr>"

text \<open>A client without credentials that holds T1 in memory and in the file.\<close>

definition anonymous_holding_client :: state where
  "anonymous_holding_client =
     \<lparr>clientId = None, clientSecret = None, accessToken = Str ''T1'',
      tokenFile = Some ''T1'', requests = []\<rparr>"

text \<open>A new client with credentials and a token file that holds one line break.\<close>

definition newline_file_client :: state where
  "newline_file_client = OpenSkyClient (Some ''id'') (Some ''secret'') (Some [CHR 0x0A]) []"

text \<open>A new client without credentials and T1 followed by a line break in the file.\<close>

definition text_file_client :: state where
  "text_file_client = OpenSkyClient None None (Some [CHR ''T'', CHR ''1'', CHR 0x0A]) []"

section \<open>Basic facts\<close>

lemma truthy_string_Some: "truthy_string (Some t) = (t \<noteq> [])"
  by (simp add: truthy_string_def)

lemma truthy_string_None: "truthy_string None = False"
  by (simp add: truthy_string_def)

lemmas eval_defs =
  OpenSkyClient_def fetch_def fetchAccessToken_def loadTokenFromFile_def
  saveTokenToFile_def clearTokenFile_def fetchAndSave_def ensureValidToken_def
  refreshToken_def makeAuthenticatedRequest_def getAccessToken_def
  truthy_string_def trim_def is_white_space_def ok_def auth_calls_def Let_def
  cold_client_def warm_client_def anonymous_client_def holding_client_def
  anonymous_holding_client_def newline_file_client_def text_file_client_def

lemma fetchAccessToken_Inr:
  assumes "fetchAccessToken net s = (Inr v, s')"
  shows "\<exists>cid secret st txt text.
           clientId s = Some cid \<and> clientSecret s = Some secret \<and> cid \<noteq> [] \<and> secret \<noteq> [] \<and>
           net (requests s) (AuthPost cid secret) = Response st txt (Some (Json v text)) \<and>
           ok st \<and> s' = s\<lparr>requests := requests s @ [AuthPost cid secret]\<rparr>"
  using assms
  by (auto simp: fetchAccessToken_def fetch_def
      split: option.splits if_splits fetch_result.splits json.splits)

lemma fetchAccessToken_Inl:
  assumes "fetchAccessToken net s = (Inl e, s')"
  shows "e \<noteq> InvalidArgType \<and>
         ((e = CredentialsNotDefined \<and> s' = s \<and>
             (\<not> truthy_string (clientId s) \<or> \<not> truthy_string (clientSecret s))) \<or>
          (e \<noteq> CredentialsNotDefined \<and>
             truthy_string (clientId s) \<and> truthy_string (clientSecret s) \<and>
             (\<exists>cid secret. clientId s = Some cid \<and> clientSecret s = Some secret \<and>
                s' = s\<lparr>requests := requests s @ [AuthPost cid secret]\<rparr>)))"
  using assms
  by (auto simp: fetchAccessToken_def fetch_def truthy_string_def
      split: option.splits if_splits fetch_result.splits json.splits)

lemma fetchAndSave_Inr:
  assumes "fetchAndSave net s = (Inr t, s')"
  shows "\<exists>cid secret st txt text.
           clientId s = Some cid \<and> clientSecret s = Some secret \<and> cid \<noteq> [] \<and> secret \<noteq> [] \<and>
           net (requests s) (AuthPost cid secret) = Response st txt (Some (Json (Str t) text)) \<and>
           ok st \<and>
           s' = s\<lparr>accessToken := Str t, tokenFile := Some t,
                  requests := requests s @ [AuthPost cid secret]\<rparr>"
proof -
  from assms obtain s1 where f: "fetchAccessToken net s = (Inr (Str t), s1)"
    and s': "s' = saveTokenToFile t (s1\<lparr>accessToken := Str t\<rparr>)"
    by (auto simp: fetchAndSave_def Let_def split: prod.splits sum.splits js_value.splits)
  from fetchAccessToken_Inr [OF f] s' show ?thesis
    by (auto simp: saveTokenToFile_def)
qed

text \<open>
  The two ways the shared tail throws: \<^verbatim>\<open>fetchAccessToken\<close> rejects, and nothing but
  the requests has changed; or it returns a value that is no string, which is in memory
  when the save throws.
\<close>

lemma fetchAndSave_Inl:
  assumes "fetchAndSave net s = (Inl e, s')"
  shows "(e \<noteq> InvalidArgType \<and> fetchAccessToken net s = (Inl e, s')) \<or>
         (e = InvalidArgType \<and>
            (\<exists>v s1. fetchAccessToken net s = (Inr v, s1) \<and> (\<forall>t. v \<noteq> Str t) \<and>
               s' = s1\<lparr>accessToken := v\<rparr>))"
proof (cases "fetchAccessToken net s")
  case (Pair r s1)
  show ?thesis
  proof (cases r)
    case (Inl e1)
    with Pair assms fetchAccessToken_Inl [of net s e1 s1] show ?thesis
      by (simp add: fetchAndSave_def)
  next
    case (Inr v)
    with Pair assms show ?thesis
      by (cases v) (simp_all add: fetchAndSave_def Let_def)
  qed
qed

lemma fetchAndSave_Inl_fields:
  assumes "fetchAndSave net s = (Inl e, s')"
  shows "tokenFile s' = tokenFile s \<and> clientId s' = clientId s \<and>
         clientSecret s' = clientSecret s \<and>
         (e \<noteq> InvalidArgType \<longrightarrow> accessToken s' = accessToken s) \<and>
         (e = InvalidArgType \<longrightarrow> (\<forall>t. accessToken s' \<noteq> Str t)) \<and>
         (requests s' = requests s \<or>
          (\<exists>cid secret. requests s' = requests s @ [AuthPost cid secret]))"
  using fetchAndSave_Inl [OF assms]
proof
  assume "e \<noteq> InvalidArgType \<and> fetchAccessToken net s = (Inl e, s')"
  with fetchAccessToken_Inl [of net s e s'] show ?thesis
    by auto
next
  assume "e = InvalidArgType \<and>
            (\<exists>v s1. fetchAccessToken net s = (Inr v, s1) \<and> (\<forall>t. v \<noteq> Str t) \<and>
               s' = s1\<lparr>accessToken := v\<rparr>)"
  then obtain v s1 where e: "e = InvalidArgType"
    and f: "fetchAccessToken net s = (Inr v, s1)"
    and v: "\<forall>t. v \<noteq> Str t" and s': "s' = s1\<lparr>accessToken := v\<rparr>"
    by blast
  from fetchAccessToken_Inr [OF f] e v s' show ?thesis
    by auto
qed

lemma ensureValidToken_fetch_path:
  assumes "truthy (accessToken s) \<or> \<not> truthy_string (loadTokenFromFile s)"
  shows "ensureValidToken net s = fetchAndSave net s"
  using assms by (auto simp: ensureValidToken_def Let_def split: option.splits)

lemma ensureValidToken_load_path:
  assumes "\<not> truthy (accessToken s)" and "loadTokenFromFile s = Some t" and "t \<noteq> []"
  shows "ensureValidToken net s = (Inr t, s\<lparr>accessToken := Str t\<rparr>)"
  using assms by (simp add: ensureValidToken_def truthy_string_def)

lemma loadTokenFromFile_absent:
  assumes "tokenFile s = None \<or> tokenFile s = Some []"
  shows "loadTokenFromFile s = None"
  using assms by (auto simp: loadTokenFromFile_def)

lemma trim_Nil: "trim [] = []"
  by (simp add: trim_def)

lemma trim_nonempty: "trim t \<noteq> [] \<Longrightarrow> t \<noteq> []"
  by (auto simp: trim_Nil)

lemma loadTokenFromFile_text:
  assumes "tokenFile s = Some contents" and "trim contents \<noteq> []"
  shows "loadTokenFromFile s = Some (trim contents)"
  using assms trim_nonempty [of contents] by (simp add: loadTokenFromFile_def)

lemma loadTokenFromFile_saved:
  "loadTokenFromFile (saveTokenToFile v s) = (if v = [] then None else Some (trim v))"
  by (simp add: loadTokenFromFile_def saveTokenToFile_def)

lemma loadTokenFromFile_cleared: "loadTokenFromFile (clearTokenFile s) = None"
  by (simp add: loadTokenFromFile_def clearTokenFile_def)

lemma clearTokenFile_fields:
  "tokenFile (clearTokenFile s) = None"
  "clientId (clearTokenFile s) = clientId s"
  "clientSecret (clearTokenFile s) = clientSecret s"
  "accessToken (clearTokenFile s) = accessToken s"
  "requests (clearTokenFile s) = requests s"
  by (simp_all add: clearTokenFile_def)

lemma clearTokenFile_eq: "clearTokenFile s = s\<lparr>tokenFile := None\<rparr>"
  by (simp add: clearTokenFile_def)

lemma refreshToken_Inr:
  assumes "refreshToken net s = (Inr t, s')"
  shows "\<exists>cid secret st txt text.
           clientId s = Some cid \<and> clientSecret s = Some secret \<and> cid \<noteq> [] \<and> secret \<noteq> [] \<and>
           net (requests s) (AuthPost cid secret) = Response st txt (Some (Json (Str t) text)) \<and>
           ok st \<and>
           s' = s\<lparr>accessToken := Str t, tokenFile := Some t,
                  requests := requests s @ [AuthPost cid secret]\<rparr>"
  using fetchAndSave_Inr [of net "clearTokenFile s" t s'] assms
  by (auto simp: refreshToken_def clearTokenFile_eq)

lemma refreshToken_Inl:
  assumes "refreshToken net s = (Inl e, s')"
  shows "tokenFile s' = None \<and>
         clientId s' = clientId s \<and> clientSecret s' = clientSecret s \<and>
         (e \<noteq> InvalidArgType \<longrightarrow> accessToken s' = accessToken s) \<and>
         (e = InvalidArgType \<longrightarrow> (\<forall>t. accessToken s' \<noteq> Str t)) \<and>
         (requests s' = requests s \<or>
          (\<exists>cid secret. requests s' = requests s @ [AuthPost cid secret]))"
proof -
  from assms have "fetchAndSave net (clearTokenFile s) = (Inl e, s')"
    by (simp add: refreshToken_def)
  from fetchAndSave_Inl_fields [OF this] show ?thesis
    by (simp add: clearTokenFile_fields)
qed

section \<open>Cold start\<close>

text \<open>
  Claim C6. A client with no token in memory and no token file, or an empty one, whose
  \<^verbatim>\<open>ensureValidToken\<close> succeeds with a token, has called the authentication endpoint
  exactly once (the one request added is the POST of its credentials, answered 2xx with
  that token), has written the token to the file, holds it in memory, and returns it.
\<close>

theorem ensureValidToken_cold_start:
  assumes "\<not> truthy (accessToken s)"
    and "tokenFile s = None \<or> tokenFile s = Some []"
    and "ensureValidToken net s = (Inr t, s')"
  shows "\<exists>cid secret st txt text.
           clientId s = Some cid \<and> clientSecret s = Some secret \<and>
           requests s' = requests s @ [AuthPost cid secret] \<and>
           auth_calls (requests s') = auth_calls (requests s) + 1 \<and>
           net (requests s) (AuthPost cid secret) = Response st txt (Some (Json (Str t) text)) \<and>
           ok st \<and> tokenFile s' = Some t \<and> accessToken s' = Str t"
proof -
  have "loadTokenFromFile s = None"
    using assms(2) by (rule loadTokenFromFile_absent)
  then have "ensureValidToken net s = fetchAndSave net s"
    by (simp add: ensureValidToken_fetch_path truthy_string_None)
  with assms(3) have "fetchAndSave net s = (Inr t, s')"
    by simp
  from fetchAndSave_Inr [OF this] show ?thesis
    by (auto simp: auth_calls_def)
qed

theorem ensureValidToken_cold_start_witness:
  "\<not> truthy (accessToken cold_client) \<and> tokenFile cold_client = None \<and>
   ensureValidToken issuing_net cold_client =
     (Inr ''T2'', cold_client\<lparr>accessToken := Str ''T2'', tokenFile := Some ''T2'',
                    requests := [AuthPost ''id'' ''secret'']\<rparr>) \<and>
   (\<exists>cid secret st txt text.
      clientId cold_client = Some cid \<and> clientSecret cold_client = Some secret \<and>
      requests (cold_client\<lparr>accessToken := Str ''T2'', tokenFile := Some ''T2'',
                    requests := [AuthPost ''id'' ''secret'']\<rparr>) =
        requests cold_client @ [AuthPost cid secret] \<and>
      auth_calls [AuthPost ''id'' ''secret''] = auth_calls (requests cold_client) + 1 \<and>
      issuing_net (requests cold_client) (AuthPost cid secret) =
        Response st txt (Some (Json (Str ''T2'') text)) \<and>
      ok st)"
proof -
  have a: "\<not> truthy (accessToken cold_client)"
    by (simp add: eval_defs)
  have b: "tokenFile cold_client = None \<or> tokenFile cold_client = Some []"
    by (simp add: eval_defs)
  have c: "ensureValidToken issuing_net cold_client =
     (Inr ''T2'', cold_client\<lparr>accessToken := Str ''T2'', tokenFile := Some ''T2'',
                    requests := [AuthPost ''id'' ''secret'']\<rparr>)"
    by (simp add: eval_defs)
  have d: "tokenFile cold_client = None"
    by (simp add: eval_defs)
  from ensureValidToken_cold_start [OF a b c] a c d show ?thesis
    by simp
qed

section \<open>Warm start\<close>

text \<open>
  Claim C5, as stated, fails: a token file that is not empty and holds white space only
  (here one line break) is read and trimmed to the empty string, which is falsy, so
  \<^verbatim>\<open>ensureValidToken\<close> goes on to the authentication endpoint and returns the granted
  token, not the contents of the file.
\<close>

theorem ensureValidToken_blank_file_fetches:
  "\<not> truthy (accessToken newline_file_client) \<and>
   tokenFile newline_file_client = Some [CHR 0x0A] \<and>
   ensureValidToken issuing_net newline_file_client =
     (Inr ''T2'', newline_file_client\<lparr>accessToken := Str ''T2'', tokenFile := Some ''T2'',
                    requests := [AuthPost ''id'' ''secret'']\<rparr>)"
  by (simp add: eval_defs)

text \<open>
  Claim C5, amended. A client with no token in memory and a token file whose trimmed
  contents are not empty adopts the trimmed contents into memory and returns them;
  nothing else of the state changes, so no request is issued and the authentication
  endpoint is not called, whatever the credentials are.
\<close>

theorem ensureValidToken_warm_start:
  assumes "\<not> truthy (accessToken s)"
    and "tokenFile s = Some contents"
    and "trim contents \<noteq> []"
  shows "ensureValidToken net s =
           (Inr (trim contents), s\<lparr>accessToken := Str (trim contents)\<rparr>) \<and>
         requests (snd (ensureValidToken net s)) = requests s \<and>
         auth_calls (requests (snd (ensureValidToken net s))) = auth_calls (requests s) \<and>
         tokenFile (snd (ensureValidToken net s)) = tokenFile s"
proof -
  have "loadTokenFromFile s = Some (trim contents)"
    using assms(2,3) by (rule loadTokenFromFile_text)
  with assms(1,3) have
    "ensureValidToken net s = (Inr (trim contents), s\<lparr>accessToken := Str (trim contents)\<rparr>)"
    by (simp add: ensureValidToken_load_path)
  then show ?thesis
    by simp
qed

theorem ensureValidToken_warm_start_witness:
  "\<not> truthy (accessToken text_file_client) \<and>
   tokenFile text_file_client = Some [CHR ''T'', CHR ''1'', CHR 0x0A] \<and>
   trim [CHR ''T'', CHR ''1'', CHR 0x0A] = ''T1'' \<and>
   ensureValidToken auth_down_net text_file_client =
     (Inr ''T1'', text_file_client\<lparr>accessToken := Str ''T1''\<rparr>) \<and>
   requests (snd (ensureValidToken auth_down_net text_file_client)) = []"
proof -
  have a: "\<not> truthy (accessToken text_file_client)"
    by (simp add: eval_defs)
  have b: "tokenFile text_file_client = Some [CHR ''T'', CHR ''1'', CHR 0x0A]"
    by (simp add: eval_defs)
  have c: "trim [CHR ''T'', CHR ''1'', CHR 0x0A] = ''T1''"
    by (simp add: eval_defs)
  then have d: "trim [CHR ''T'', CHR ''1'', CHR 0x0A] \<noteq> []"
    by simp
  have e: "requests text_file_client = []"
    by (simp add: eval_defs)
  from ensureValidToken_warm_start [OF a b d, of auth_down_net] a b c e show ?thesis
    by simp
qed

section \<open>The token file as a store\<close>

text \<open>
  Claim C9, as stated, fails for a token with white space at an end, which is loaded
  trimmed, and for the empty token, after which the file has size 0 and is loaded as
  absent.
\<close>

theorem save_load_not_identity:
  "loadTokenFromFile (saveTokenToFile '' T1'' cold_client) = Some ''T1'' \<and>
   loadTokenFromFile (saveTokenToFile '' T1'' cold_client) \<noteq> Some '' T1'' \<and>
   loadTokenFromFile (saveTokenToFile [] cold_client) = None"
  by (simp add: eval_defs)

text \<open>
  Claim C9, amended. For every token \<open>v\<close> that is not empty and has no white space at
  its ends (\<open>trim v = v\<close>), \<^verbatim>\<open>saveTokenToFile\<close> followed by \<^verbatim>\<open>loadTokenFromFile\<close>
  returns \<open>v\<close>, also when \<open>v\<close> is saved twice (the second save changes nothing);
  \<^verbatim>\<open>clearTokenFile\<close> followed by \<^verbatim>\<open>loadTokenFromFile\<close> returns absent, also right after a
  save. For any \<open>v\<close>, loading after saving gives the trimmed \<open>v\<close>, and absent when \<open>v\<close> is
  empty.
\<close>

theorem save_load_clear:
  assumes "v \<noteq> []" and "trim v = v"
  shows "loadTokenFromFile (saveTokenToFile v s) = Some v \<and>
         loadTokenFromFile (saveTokenToFile v (saveTokenToFile v s)) = Some v \<and>
         saveTokenToFile v (saveTokenToFile v s) = saveTokenToFile v s \<and>
         loadTokenFromFile (clearTokenFile s) = None \<and>
         loadTokenFromFile (clearTokenFile (saveTokenToFile v s)) = None \<and>
         (\<forall>w. loadTokenFromFile (saveTokenToFile w s) =
                (if w = [] then None else Some (trim w)))"
  using assms
  by (simp add: loadTokenFromFile_saved loadTokenFromFile_cleared) (simp add: saveTokenToFile_def)

theorem save_load_clear_witness:
  "''T1'' \<noteq> [] \<and> trim ''T1'' = ''T1'' \<and>
   loadTokenFromFile (saveTokenToFile ''T1'' cold_client) = Some ''T1'' \<and>
   loadTokenFromFile (saveTokenToFile ''T1'' (saveTokenToFile ''T1'' cold_client)) = Some ''T1'' \<and>
   loadTokenFromFile (clearTokenFile (saveTokenToFile ''T1'' cold_client)) = None"
proof -
  have a: "''T1'' \<noteq> []"
    by simp
  have b: "trim ''T1'' = ''T1''"
    by (simp add: eval_defs)
  from save_load_clear [OF a b, of cold_client] a b show ?thesis
    by simp
qed

section \<open>The legacy function\<close>

text \<open>
  Claim C10, as stated, fails: with a token file that is not empty and holds one space,
  the result of \<^verbatim>\<open>getAccessToken\<close> depends on the credentials. Without credentials it
  throws, with credentials it calls the authentication endpoint and returns the granted
  token.
\<close>

theorem getAccessToken_blank_file_depends_on_credentials:
  "getAccessToken issuing_net None None (Some '' '') [] =
     (Inl CredentialsNotDefined, OpenSkyClient None None (Some '' '') []) \<and>
   getAccessToken issuing_net (Some ''id'') (Some ''secret'') (Some '' '') [] =
     (Inr ''T2'',
      \<lparr>clientId = Some ''id'', clientSecret = Some ''secret'', accessToken = Str ''T2'',
       tokenFile = Some ''T2'', requests = [AuthPost ''id'' ''secret'']\<rparr>)"
  by (simp add: eval_defs)

text \<open>
  Claim C10, amended. Whenever the trimmed contents of the token file are not empty,
  \<^verbatim>\<open>getAccessToken\<close> returns the trimmed contents whatever its two arguments are (also
  undefined ones) and whatever the servers would answer: the results for any two pairs of
  credentials are equal, no credential is checked, and no request is issued.
\<close>

theorem getAccessToken_ignores_credentials:
  assumes "trim contents \<noteq> []"
  shows "fst (getAccessToken net cid secret (Some contents) reqs) = Inr (trim contents) \<and>
         fst (getAccessToken net cid secret (Some contents) reqs) =
           fst (getAccessToken net' cid' secret' (Some contents) reqs') \<and>
         requests (snd (getAccessToken net cid secret (Some contents) reqs)) = reqs \<and>
         tokenFile (snd (getAccessToken net cid secret (Some contents) reqs)) = Some contents"
proof -
  have load: "loadTokenFromFile (OpenSkyClient c k (Some contents) r) = Some (trim contents)"
    for c k r
    using assms by (simp add: loadTokenFromFile_text OpenSkyClient_def)
  have "getAccessToken n c k (Some contents) r =
          (Inr (trim contents),
           (OpenSkyClient c k (Some contents) r)\<lparr>accessToken := Str (trim contents)\<rparr>)"
    for n c k r
    unfolding getAccessToken_def
    using assms load [of c k r]
    by (intro ensureValidToken_load_path) (simp_all add: OpenSkyClient_def truthy_string_None)
  then show ?thesis
    by (simp add: OpenSkyClient_def)
qed

theorem getAccessToken_ignores_credentials_witness:
  "trim ''T1'' \<noteq> [] \<and>
   fst (getAccessToken issuing_net None None (Some ''T1'') []) = Inr ''T1'' \<and>
   fst (getAccessToken issuing_net None None (Some ''T1'') []) =
     fst (getAccessToken auth_down_net (Some ''id'') (Some ''secret'') (Some ''T1'') []) \<and>
   requests (snd (getAccessToken issuing_net None None (Some ''T1'') [])) = []"
proof -
  have a: "trim ''T1'' = ''T1''"
    by (simp add: eval_defs)
  then have b: "trim ''T1'' \<noteq> []"
    by simp
  from getAccessToken_ignores_credentials
         [OF b, of issuing_net None None "[]" auth_down_net "Some ''id''" "Some ''secret''" "[]"]
       a b
  show ?thesis
    by auto
qed

section \<open>Authenticated requests\<close>

text \<open>
  Claim C8. When the first response to the resource request has a status outside 200 to
  299 other than 401, \<^verbatim>\<open>makeAuthenticatedRequest\<close> throws the error that carries this
  status. The state it leaves is the state after \<^verbatim>\<open>ensureValidToken\<close> with that one
  GET added to the requests: nothing follows the failing response, neither a retry nor a
  call of the authentication endpoint.
\<close>

theorem non_auth_failure_not_retried:
  assumes "ensureValidToken net s = (Inr token, s1)"
    and "net (requests s1) (ResourceGet url token) = Response st txt body"
    and "\<not> ok st"
    and "st \<noteq> 401"
  shows "makeAuthenticatedRequest net url s =
           (Inl (ApiRequestFailed st), s1\<lparr>requests := requests s1 @ [ResourceGet url token]\<rparr>) \<and>
         auth_calls (requests (snd (makeAuthenticatedRequest net url s))) =
           auth_calls (requests s1)"
proof -
  have "makeAuthenticatedRequest net url s =
          (Inl (ApiRequestFailed st), s1\<lparr>requests := requests s1 @ [ResourceGet url token]\<rparr>)"
    using assms by (simp add: makeAuthenticatedRequest_def fetch_def)
  then show ?thesis
    by (simp add: auth_calls_def)
qed

theorem non_auth_failure_not_retried_witness:
  "ensureValidToken not_found_net warm_client =
     (Inr ''T1'', warm_client\<lparr>accessToken := Str ''T1''\<rparr>) \<and>
   not_found_net [] (ResourceGet ''/states/all'' ''T1'') = Response 404 ''Not Found'' None \<and>
   \<not> ok 404 \<and> (404 :: nat) \<noteq> 401 \<and>
   makeAuthenticatedRequest not_found_net ''/states/all'' warm_client =
     (Inl (ApiRequestFailed 404),
      warm_client\<lparr>accessToken := Str ''T1'', requests := [ResourceGet ''/states/all'' ''T1'']\<rparr>) \<and>
   auth_calls
     (requests (snd (makeAuthenticatedRequest not_found_net ''/states/all'' warm_client))) = 0"
proof -
  have a: "ensureValidToken not_found_net warm_client =
     (Inr ''T1'', warm_client\<lparr>accessToken := Str ''T1''\<rparr>)"
    by (simp add: eval_defs)
  have r: "requests (warm_client\<lparr>accessToken := Str ''T1''\<rparr>) = []"
    by (simp add: eval_defs)
  have b: "not_found_net (requests (warm_client\<lparr>accessToken := Str ''T1''\<rparr>))
             (ResourceGet ''/states/all'' ''T1'') = Response 404 ''Not Found'' None"
    by simp
  have c: "\<not> ok 404"
    by (simp add: ok_def)
  have d: "(404 :: nat) \<noteq> 401"
    by simp
  from non_auth_failure_not_retried [OF a b c d] a c r show ?thesis
    by (simp add: auth_calls_def)
qed


text \<open>
  Claim C1, as stated, fails when the refresh itself fails: the first GET is answered
  401, the authentication server answers 500 to the refresh, and the call ends with the
  error of the token retrieval. No retry GET is issued, and the error carries no status
  of a retry.
\<close>

theorem refresh_failure_no_retry:
  "ensureValidToken auth_down_net warm_client =
     (Inr ''T1'', warm_client\<lparr>accessToken := Str ''T1''\<rparr>) \<and>
   auth_down_net [] (ResourceGet ''/states/all'' ''T1'') = Response 401 ''Unauthorized'' None \<and>
   makeAuthenticatedRequest auth_down_net ''/states/all'' warm_client =
     (Inl (TokenRetrievalFailed 500 ''Internal Server Error''),
      \<lparr>clientId = Some ''id'', clientSecret = Some ''secret'', accessToken = Str ''T1'',
       tokenFile = None,
       requests = [ResourceGet ''/states/all'' ''T1'', AuthPost ''id'' ''secret'']\<rparr>)"
  by (simp add: eval_defs)


text \<open>
  Claim C1, amended. When the first GET is answered 401, \<^verbatim>\<open>refreshToken\<close> runs once on
  the state reached. If it fails, the call fails with its error and no further GET is
  issued (at most the one POST of the refresh follows the first GET). If it succeeds
  with a new token, exactly the POST of the refresh and one GET of the same URL with the
  new token follow the first GET, and nothing after that: a retry answered with a status
  outside 200 to 299, a second 401 included, makes the call fail with the error that
  carries the status of the retry, and a retry answered 2xx with a JSON body makes the
  call return that body.
\<close>

theorem unauthorized_refresh_and_single_retry:
  assumes ensure: "ensureValidToken net s = (Inr token, s1)"
    and first: "net (requests s1) (ResourceGet url token) = Response 401 txt body"
    and s2: "s2 = s1\<lparr>requests := requests s1 @ [ResourceGet url token]\<rparr>"
  shows "case refreshToken net s2 of
           (Inl e, s3) \<Rightarrow>
             makeAuthenticatedRequest net url s = (Inl e, s3) \<and>
             (requests s3 = requests s2 \<or>
              (\<exists>cid secret. requests s3 = requests s2 @ [AuthPost cid secret]))
         | (Inr token', s3) \<Rightarrow>
             (\<exists>cid secret. requests s3 = requests s2 @ [AuthPost cid secret]) \<and>
             requests (snd (makeAuthenticatedRequest net url s)) =
               requests s3 @ [ResourceGet url token'] \<and>
             (\<forall>st' txt' body'.
                net (requests s3) (ResourceGet url token') = Response st' txt' body' \<and> \<not> ok st'
                \<longrightarrow> fst (makeAuthenticatedRequest net url s) =
                      Inl (ApiRequestFailedAfterRefresh st')) \<and>
             (\<forall>st' txt' v.
                net (requests s3) (ResourceGet url token') = Response st' txt' (Some v) \<and> ok st'
                \<longrightarrow> fst (makeAuthenticatedRequest net url s) = Inr v)"
proof (cases "refreshToken net s2")
  case (Pair r s3)
  have unfold: "makeAuthenticatedRequest net url s =
      (case refreshToken net s2 of
         (Inl e, s3) \<Rightarrow> (Inl e, s3)
       | (Inr token', s3) \<Rightarrow>
           (case fetch net (ResourceGet url token') s3 of
              (NetworkError, s4) \<Rightarrow> (Inl FetchRejected, s4)
            | (Response st' txt' body', s4) \<Rightarrow>
                if \<not> ok st' then (Inl (ApiRequestFailedAfterRefresh st'), s4)
                else (case body' of None \<Rightarrow> (Inl JsonRejected, s4) | Some v \<Rightarrow> (Inr v, s4))))"
    using ensure first s2 by (simp add: makeAuthenticatedRequest_def fetch_def)
  show ?thesis
  proof (cases r)
    case (Inl e)
    with Pair have ref: "refreshToken net s2 = (Inl e, s3)"
      by simp
    from refreshToken_Inl [OF ref] ref unfold show ?thesis
      by simp
  next
    case (Inr token')
    with Pair have ref: "refreshToken net s2 = (Inr token', s3)"
      by simp
    from refreshToken_Inr [OF ref] obtain cid secret
      where reqs: "requests s3 = requests s2 @ [AuthPost cid secret]"
      by auto
    have m: "makeAuthenticatedRequest net url s =
      (case fetch net (ResourceGet url token') s3 of
              (NetworkError, s4) \<Rightarrow> (Inl FetchRejected, s4)
            | (Response st' txt' body', s4) \<Rightarrow>
                if \<not> ok st' then (Inl (ApiRequestFailedAfterRefresh st'), s4)
                else (case body' of None \<Rightarrow> (Inl JsonRejected, s4) | Some v \<Rightarrow> (Inr v, s4)))"
      using unfold ref by simp
    have "requests (snd (makeAuthenticatedRequest net url s)) =
            requests s3 @ [ResourceGet url token']"
      unfolding m by (simp add: fetch_def split: fetch_result.splits option.splits)
    moreover have "fst (makeAuthenticatedRequest net url s) =
                     Inl (ApiRequestFailedAfterRefresh st')"
      if "net (requests s3) (ResourceGet url token') = Response st' txt' body'" and "\<not> ok st'"
      for st' txt' body'
      unfolding m using that by (simp add: fetch_def)
    moreover have "fst (makeAuthenticatedRequest net url s) = Inr v"
      if "net (requests s3) (ResourceGet url token') = Response st' txt' (Some v)" and "ok st'"
      for st' txt' v
      unfolding m using that by (simp add: fetch_def)
    ultimately show ?thesis
      using ref reqs by auto
  qed
qed

theorem unauthorized_refresh_and_single_retry_witness:
  "ensureValidToken refusing_net warm_client =
     (Inr ''T1'', warm_client\<lparr>accessToken := Str ''T1''\<rparr>) \<and>
   refusing_net [] (ResourceGet ''/states/all'' ''T1'') = Response 401 ''Unauthorized'' None \<and>
   refreshToken refusing_net
     (warm_client\<lparr>accessToken := Str ''T1'', requests := [ResourceGet ''/states/all'' ''T1'']\<rparr>) =
     (Inr ''T2'',
      warm_client\<lparr>accessToken := Str ''T2'', tokenFile := Some ''T2'',
        requests := [ResourceGet ''/states/all'' ''T1'', AuthPost ''id'' ''secret'']\<rparr>) \<and>
   fst (makeAuthenticatedRequest refusing_net ''/states/all'' warm_client) =
     Inl (ApiRequestFailedAfterRefresh 401) \<and>
   requests (snd (makeAuthenticatedRequest refusing_net ''/states/all'' warm_client)) =
     [ResourceGet ''/states/all'' ''T1'', AuthPost ''id'' ''secret'',
      ResourceGet ''/states/all'' ''T2'']"
proof -
  have a: "ensureValidToken refusing_net warm_client =
     (Inr ''T1'', warm_client\<lparr>accessToken := Str ''T1''\<rparr>)"
    by (simp add: eval_defs)
  have b: "refusing_net (requests (warm_client\<lparr>accessToken := Str ''T1''\<rparr>))
             (ResourceGet ''/states/all'' ''T1'') = Response 401 ''Unauthorized'' None"
    by simp
  have c: "warm_client\<lparr>accessToken := Str ''T1'', requests := [ResourceGet ''/states/all'' ''T1'']\<rparr> =
     (warm_client\<lparr>accessToken := Str ''T1''\<rparr>)
       \<lparr>requests := requests (warm_client\<lparr>accessToken := Str ''T1''\<rparr>) @
          [ResourceGet ''/states/all'' ''T1'']\<rparr>"
    by (simp add: eval_defs)
  have d: "refreshToken refusing_net
     (warm_client\<lparr>accessToken := Str ''T1'', requests := [ResourceGet ''/states/all'' ''T1'']\<rparr>) =
     (Inr ''T2'',
      warm_client\<lparr>accessToken := Str ''T2'', tokenFile := Some ''T2'',
        requests := [ResourceGet ''/states/all'' ''T1'', AuthPost ''id'' ''secret'']\<rparr>)"
    by (simp add: eval_defs)
  have e: "\<not> ok 401"
    by (simp add: ok_def)
  from unauthorized_refresh_and_single_retry [OF a b c] a d e show ?thesis
    by simp
qed

section \<open>The token in memory\<close>

text \<open>
  Claim C2 does not hold of the code. The guard of \<^verbatim>\<open>ensureValidToken\<close> is
  \<^verbatim>\<open>if (!this.accessToken)\<close>, and it encloses only the load from the file; with a token
  in memory control falls through to the statements under the comment
  \<^verbatim>\<open>// Fetch new token if none exists\<close>. A client that holds T1 in memory calls the
  authentication endpoint and returns the granted T2, and two calls in a row on a cold
  start call the authentication endpoint twice. The client that holds T1 is the one a
  first \<^verbatim>\<open>ensureValidToken\<close> leaves when it has loaded T1 from the file.
\<close>

theorem ensureValidToken_fetches_despite_token_in_memory:
  "snd (ensureValidToken issuing_net warm_client) = holding_client \<and>
   truthy (accessToken holding_client) \<and>
   ensureValidToken issuing_net holding_client =
     (Inr ''T2'', holding_client\<lparr>accessToken := Str ''T2'', tokenFile := Some ''T2'',
                    requests := [AuthPost ''id'' ''secret'']\<rparr>) \<and>
   requests (snd (ensureValidToken issuing_net
               (snd (ensureValidToken issuing_net cold_client)))) =
     [AuthPost ''id'' ''secret'', AuthPost ''id'' ''secret''] \<and>
   auth_calls (requests (snd (ensureValidToken issuing_net
               (snd (ensureValidToken issuing_net cold_client))))) = 2"
  by (simp add: eval_defs)

section \<open>Missing credentials\<close>

text \<open>
  Claim C7 does not hold of the code, by the defect of claim C2. A client without
  credentials that has loaded T1 from the file holds it in memory; on its next
  \<^verbatim>\<open>ensureValidToken\<close> the guard \<^verbatim>\<open>if (!this.accessToken)\<close> skips the load, control
  reaches \<^verbatim>\<open>fetchAccessToken\<close>, and the credentials error is thrown, although the token
  is in memory and could be loaded from the file, so that no fetch is required.
\<close>

theorem ensureValidToken_throws_despite_cached_token:
  "ensureValidToken issuing_net anonymous_client = (Inr ''T1'', anonymous_holding_client) \<and>
   accessToken anonymous_holding_client = Str ''T1'' \<and>
   loadTokenFromFile anonymous_holding_client = Some ''T1'' \<and>
   ensureValidToken issuing_net anonymous_holding_client =
     (Inl CredentialsNotDefined, anonymous_holding_client)"
  by (simp add: eval_defs)

section \<open>The file mirrors the memory\<close>

lemma adoptable_cong:
  assumes "tokenFile s' = tokenFile s"
  shows "adoptable s' = adoptable s"
  using assms by (simp add: adoptable_def loadTokenFromFile_def)

lemma mirrored_cong:
  assumes "tokenFile s' = tokenFile s" and "accessToken s' = accessToken s"
  shows "mirrored s' = mirrored s"
  using assms adoptable_cong [OF assms(1)]
  by (simp add: mirrored_def split: js_value.splits)

lemma mirrored_absent:
  assumes "tokenFile s = None"
  shows "mirrored s"
  using assms
  by (simp add: mirrored_def adoptable_def loadTokenFromFile_def truthy_string_def
      split: js_value.splits)

lemma mirrored_nothing_adoptable:
  assumes "adoptable s = None"
  shows "mirrored s"
  using assms by (simp add: mirrored_def split: js_value.splits)

lemma mirrored_saved:
  assumes "tokenFile s = Some t" and "accessToken s = Str t"
  shows "mirrored s"
  using assms by (simp add: mirrored_def)

lemma mirrored_loaded:
  assumes "loadTokenFromFile s = Some t" and "accessToken s = Str t"
  shows "mirrored s"
  using assms by (simp add: mirrored_def adoptable_def)

lemma mirrored_no_string:
  assumes "\<forall>t. accessToken s \<noteq> Str t"
  shows "mirrored s"
  using assms by (cases "accessToken s") (simp_all add: mirrored_def)

lemma ensureValidToken_Inl:
  assumes "ensureValidToken net s = (Inl e, s')"
  shows "fetchAndSave net s = (Inl e, s') \<and>
         (truthy (accessToken s) \<or> \<not> truthy_string (loadTokenFromFile s))"
proof (cases "truthy (accessToken s) \<or> \<not> truthy_string (loadTokenFromFile s)")
  case True
  with assms show ?thesis
    by (simp add: ensureValidToken_fetch_path)
next
  case False
  then obtain t where "loadTokenFromFile s = Some t" "t \<noteq> []" "\<not> truthy (accessToken s)"
    by (auto simp: truthy_string_def split: option.splits)
  with assms show ?thesis
    by (simp add: ensureValidToken_load_path)
qed

lemma ensureValidToken_Inr:
  assumes "ensureValidToken net s = (Inr t, s')"
  shows "(fetchAndSave net s = (Inr t, s') \<and>
            (truthy (accessToken s) \<or> \<not> truthy_string (loadTokenFromFile s))) \<or>
         (\<not> truthy (accessToken s) \<and> loadTokenFromFile s = Some t \<and> t \<noteq> [] \<and>
            s' = s\<lparr>accessToken := Str t\<rparr>)"
proof (cases "truthy (accessToken s) \<or> \<not> truthy_string (loadTokenFromFile s)")
  case True
  with assms show ?thesis
    by (simp add: ensureValidToken_fetch_path)
next
  case False
  then obtain u where "loadTokenFromFile s = Some u" "u \<noteq> []" "\<not> truthy (accessToken s)"
    by (auto simp: truthy_string_def split: option.splits)
  with assms show ?thesis
    by (auto simp: ensureValidToken_load_path)
qed

lemma ensureValidToken_effect:
  assumes "ensureValidToken net s = (r, s')"
  shows "case r of
           Inl e \<Rightarrow> tokenFile s' = tokenFile s \<and>
                    (e \<noteq> InvalidArgType \<longrightarrow> accessToken s' = accessToken s) \<and>
                    (e = InvalidArgType \<longrightarrow> (\<forall>t. accessToken s' \<noteq> Str t))
         | Inr t \<Rightarrow> accessToken s' = Str t \<and>
                    (tokenFile s' = Some t \<or>
                     tokenFile s' = tokenFile s \<and> loadTokenFromFile s = Some t)"
proof (cases r)
  case (Inl e)
  with assms have "fetchAndSave net s = (Inl e, s')"
    by (simp add: ensureValidToken_Inl)
  from fetchAndSave_Inl_fields [OF this] Inl show ?thesis
    by simp
next
  case (Inr t)
  with assms have "ensureValidToken net s = (Inr t, s')"
    by simp
  from ensureValidToken_Inr [OF this] Inr show ?thesis
    by (auto dest: fetchAndSave_Inr)
qed

lemma refreshToken_effect:
  assumes "refreshToken net s = (r, s')"
  shows "case r of
           Inl e \<Rightarrow> tokenFile s' = None \<and>
                    (e \<noteq> InvalidArgType \<longrightarrow> accessToken s' = accessToken s) \<and>
                    (e = InvalidArgType \<longrightarrow> (\<forall>t. accessToken s' \<noteq> Str t))
         | Inr t \<Rightarrow> tokenFile s' = Some t \<and> accessToken s' = Str t"
proof (cases r)
  case (Inl e)
  with assms refreshToken_Inl [of net s e s'] show ?thesis
    by simp
next
  case (Inr t)
  with assms refreshToken_Inr [of net s t s'] show ?thesis
    by auto
qed

lemma run_op_mirrored:
  assumes start: "\<not> truthy (accessToken s) \<or> mirrored s"
  shows "mirrored (snd (run_op net op s))"
proof (cases op)
  case RefreshToken
  obtain r s' where run: "refreshToken net s = (r, s')"
    by (cases "refreshToken net s")
  show ?thesis
  proof (cases r)
    case (Inl e)
    with run refreshToken_Inl [of net s e s'] RefreshToken show ?thesis
      by (simp add: mirrored_absent)
  next
    case (Inr t)
    with run have ref: "refreshToken net s = (Inr t, s')"
      by simp
    with refreshToken_effect [OF ref] RefreshToken show ?thesis
      by (simp add: mirrored_saved)
  qed
next
  case EnsureValidToken
  obtain r s' where run: "ensureValidToken net s = (r, s')"
    by (cases "ensureValidToken net s")
  show ?thesis
  proof (cases r)
    case (Inl e)
    with run have ens: "ensureValidToken net s = (Inl e, s')"
      by simp
    from ensureValidToken_effect [OF ens]
    have same: "tokenFile s' = tokenFile s"
      and kept: "e \<noteq> InvalidArgType \<Longrightarrow> accessToken s' = accessToken s"
      and lost: "e = InvalidArgType \<Longrightarrow> \<forall>t. accessToken s' \<noteq> Str t"
      by simp_all
    from ensureValidToken_Inl [OF ens]
    have path: "truthy (accessToken s) \<or> \<not> truthy_string (loadTokenFromFile s)"
      by simp
    have "mirrored s'"
    proof (cases "e = InvalidArgType")
      case True
      then show ?thesis
        using lost by (simp add: mirrored_no_string)
    next
      case False
      have "mirrored s"
      proof (cases "truthy (accessToken s)")
        case True
        with start show ?thesis
          by simp
      next
        case False
        with path have "adoptable s = None"
          by (simp add: adoptable_def)
        then show ?thesis
          by (rule mirrored_nothing_adoptable)
      qed
      with same kept [OF False] show ?thesis
        by (simp add: mirrored_cong [of s' s])
    qed
    with ens EnsureValidToken show ?thesis
      by simp
  next
    case (Inr t)
    with run have ens: "ensureValidToken net s = (Inr t, s')"
      by simp
    from ensureValidToken_Inr [OF ens] show ?thesis
    proof
      assume fetched: "fetchAndSave net s = (Inr t, s') \<and>
                       (truthy (accessToken s) \<or> \<not> truthy_string (loadTokenFromFile s))"
      with fetchAndSave_Inr [of net s t s']
      have "tokenFile s' = Some t" "accessToken s' = Str t"
        by auto
      then show ?thesis
        using ens EnsureValidToken by (simp add: mirrored_saved)
    next
      assume loaded: "\<not> truthy (accessToken s) \<and> loadTokenFromFile s = Some t \<and> t \<noteq> [] \<and>
                      s' = s\<lparr>accessToken := Str t\<rparr>"
      then have "loadTokenFromFile s' = Some t" "accessToken s' = Str t"
        by (simp_all add: loadTokenFromFile_def)
      then show ?thesis
        using ens EnsureValidToken by (simp add: mirrored_loaded)
    qed
  qed
qed

lemma run_ops_mirrored:
  assumes "mirrored s"
  shows "mirrored (run_ops net ops s)"
  using assms
proof (induction ops arbitrary: s)
  case Nil
  then show ?case
    by simp
next
  case (Cons op ops)
  from Cons.prems have "mirrored (snd (run_op net op s))"
    by (simp add: run_op_mirrored)
  then show ?case
    by (simp add: Cons.IH)
qed

text \<open>
  Claim C3, as stated, fails in its last part: \<^verbatim>\<open>refreshToken\<close> deletes the file but
  does not clear \<^verbatim>\<open>this.accessToken\<close>; the field is only overwritten once the token
  request has been answered. When the token request fails, the token that was refused
  stays in memory.
\<close>

theorem failed_refresh_keeps_token_in_memory:
  "accessToken holding_client = Str ''T1'' \<and>
   refreshToken auth_down_net holding_client =
     (Inl (TokenRetrievalFailed 500 ''Internal Server Error''),
      holding_client\<lparr>tokenFile := None, requests := [AuthPost ''id'' ''secret'']\<rparr>) \<and>
   accessToken (snd (refreshToken auth_down_net holding_client)) = Str ''T1'' \<and>
   tokenFile (snd (refreshToken auth_down_net holding_client)) = None"
  by (simp add: eval_defs)

text \<open>
  Claim C3, amended. After every non-empty sequence of \<^verbatim>\<open>ensureValidToken\<close> and
  \<^verbatim>\<open>refreshToken\<close> on a new client, each returning or throwing: when the memory holds
  a string, the contents of the file are that string (as they stand, or trimmed as they
  are loaded), or the file offers nothing to adopt. A \<^verbatim>\<open>refreshToken\<close> that returns
  leaves the new token in file and memory; one that throws leaves no file. An
  \<^verbatim>\<open>ensureValidToken\<close> that returns leaves its token in memory, and in the file either
  that token or, when it was loaded, the contents it was loaded from; one that throws
  leaves the file as it was. The memory is never cleared on the way: an operation that
  throws leaves it as it was, unless the throw is that of the save, when the token request
  was answered 2xx with a JSON body whose \<^verbatim>\<open>access_token\<close> is no string, and the memory
  holds that value.
\<close>

theorem token_file_mirrors_memory:
  assumes "\<not> truthy (accessToken s)"
    and "ops \<noteq> []"
  shows "mirrored (run_ops net ops s) \<and>
         (\<forall>s0 e s'. refreshToken net s0 = (Inl e, s') \<longrightarrow>
            tokenFile s' = None \<and>
            (e \<noteq> InvalidArgType \<longrightarrow> accessToken s' = accessToken s0) \<and>
            (e = InvalidArgType \<longrightarrow> (\<forall>t. accessToken s' \<noteq> Str t))) \<and>
         (\<forall>s0 t s'. refreshToken net s0 = (Inr t, s') \<longrightarrow>
            tokenFile s' = Some t \<and> accessToken s' = Str t) \<and>
         (\<forall>s0 e s'. ensureValidToken net s0 = (Inl e, s') \<longrightarrow>
            tokenFile s' = tokenFile s0 \<and>
            (e \<noteq> InvalidArgType \<longrightarrow> accessToken s' = accessToken s0) \<and>
            (e = InvalidArgType \<longrightarrow> (\<forall>t. accessToken s' \<noteq> Str t))) \<and>
         (\<forall>s0 t s'. ensureValidToken net s0 = (Inr t, s') \<longrightarrow>
            accessToken s' = Str t \<and>
            (tokenFile s' = Some t \<or>
             tokenFile s' = tokenFile s0 \<and> loadTokenFromFile s0 = Some t))"
proof -
  from assms(2) obtain op rest where ops: "ops = op # rest"
    by (cases ops) auto
  have "mirrored (snd (run_op net op s))"
    using assms(1) by (simp add: run_op_mirrored)
  then have "mirrored (run_ops net ops s)"
    using ops by (simp add: run_ops_mirrored)
  moreover have "tokenFile s' = None \<and>
            (e \<noteq> InvalidArgType \<longrightarrow> accessToken s' = accessToken s0) \<and>
            (e = InvalidArgType \<longrightarrow> (\<forall>t. accessToken s' \<noteq> Str t))"
    if "refreshToken net s0 = (Inl e, s')" for s0 e s'
    using refreshToken_effect [OF that] by simp
  moreover have "tokenFile s' = Some t \<and> accessToken s' = Str t"
    if "refreshToken net s0 = (Inr t, s')" for s0 t s'
    using refreshToken_effect [OF that] by simp
  moreover have "tokenFile s' = tokenFile s0 \<and>
            (e \<noteq> InvalidArgType \<longrightarrow> accessToken s' = accessToken s0) \<and>
            (e = InvalidArgType \<longrightarrow> (\<forall>t. accessToken s' \<noteq> Str t))"
    if "ensureValidToken net s0 = (Inl e, s')" for s0 e s'
    using ensureValidToken_effect [OF that] by simp
  moreover have "accessToken s' = Str t \<and>
            (tokenFile s' = Some t \<or>
             tokenFile s' = tokenFile s0 \<and> loadTokenFromFile s0 = Some t)"
    if "ensureValidToken net s0 = (Inr t, s')" for s0 t s'
    using ensureValidToken_effect [OF that] by simp
  ultimately show ?thesis
    by blast
qed

theorem token_file_mirrors_memory_witness:
  "\<not> truthy (accessToken warm_client) \<and>
   [EnsureValidToken, RefreshToken] \<noteq> [] \<and>
   run_ops auth_down_net [EnsureValidToken, RefreshToken] warm_client =
     warm_client\<lparr>accessToken := Str ''T1'', tokenFile := None,
       requests := [AuthPost ''id'' ''secret'']\<rparr> \<and>
   mirrored (run_ops auth_down_net [EnsureValidToken, RefreshToken] warm_client) \<and>
   run_ops tokenless_net [EnsureValidToken, EnsureValidToken] warm_client =
     warm_client\<lparr>accessToken := Undefined, requests := [AuthPost ''id'' ''secret'']\<rparr> \<and>
   mirrored (run_ops tokenless_net [EnsureValidToken, EnsureValidToken] warm_client) \<and>
   refreshToken tokenless_net holding_client =
     (Inl InvalidArgType,
      holding_client\<lparr>accessToken := Undefined, tokenFile := None,
        requests := [AuthPost ''id'' ''secret'']\<rparr>) \<and>
   refreshToken issuing_net holding_client =
     (Inr ''T2'', holding_client\<lparr>accessToken := Str ''T2'', tokenFile := Some ''T2'',
                    requests := [AuthPost ''id'' ''secret'']\<rparr>)"
proof -
  have a: "\<not> truthy (accessToken warm_client)"
    by (simp add: eval_defs)
  have b: "[EnsureValidToken, RefreshToken] \<noteq> []"
    by simp
  have b': "[EnsureValidToken, EnsureValidToken] \<noteq> []"
    by simp
  have c: "run_ops auth_down_net [EnsureValidToken, RefreshToken] warm_client =
     warm_client\<lparr>accessToken := Str ''T1'', tokenFile := None,
       requests := [AuthPost ''id'' ''secret'']\<rparr>"
    by (simp add: eval_defs)
  have c': "run_ops tokenless_net [EnsureValidToken, EnsureValidToken] warm_client =
     warm_client\<lparr>accessToken := Undefined, requests := [AuthPost ''id'' ''secret'']\<rparr>"
    by (simp add: eval_defs)
  have d: "refreshToken issuing_net holding_client =
     (Inr ''T2'', holding_client\<lparr>accessToken := Str ''T2'', tokenFile := Some ''T2'',
                    requests := [AuthPost ''id'' ''secret'']\<rparr>)"
    by (simp add: eval_defs)
  have d': "refreshToken tokenless_net holding_client =
     (Inl InvalidArgType,
      holding_client\<lparr>accessToken := Undefined, tokenFile := None,
        requests := [AuthPost ''id'' ''secret'']\<rparr>)"
    by (simp add: eval_defs)
  from token_file_mirrors_memory [OF a b, of auth_down_net]
  have m: "mirrored (run_ops auth_down_net [EnsureValidToken, RefreshToken] warm_client)"
    by blast
  from token_file_mirrors_memory [OF a b', of tokenless_net]
  have m': "mirrored (run_ops tokenless_net [EnsureValidToken, EnsureValidToken] warm_client)"
    by blast
  from a b c c' d d' m m' show ?thesis
    by simp
qed

section \<open>The window between clearing and saving\<close>

lemma fetchAccessToken_tokenFile:
  "tokenFile (snd (fetchAccessToken net s)) = tokenFile s"
proof (cases "fetchAccessToken net s")
  case (Pair r s')
  show ?thesis
  proof (cases r)
    case (Inl e)
    with Pair fetchAccessToken_Inl [of net s e s'] show ?thesis
      by auto
  next
    case (Inr v)
    with Pair fetchAccessToken_Inr [of net s v s'] show ?thesis
      by auto
  qed
qed

lemma refreshToken_states_Inl:
  assumes "fetchAccessToken net (clearTokenFile s) = (Inl e, s2)"
  shows "refreshToken_states net s = [s, clearTokenFile s, s2]"
    and "refreshToken net s = (Inl e, s2)"
    and "e \<noteq> InvalidArgType"
  using assms fetchAccessToken_Inl [OF assms]
  by (simp_all add: refreshToken_states_def refreshToken_def fetchAndSave_def Let_def)

lemma refreshToken_states_Str:
  assumes "fetchAccessToken net (clearTokenFile s) = (Inr (Str t), s2)"
  shows "refreshToken_states net s =
           [s, clearTokenFile s, s2, s2\<lparr>accessToken := Str t\<rparr>,
            saveTokenToFile t (s2\<lparr>accessToken := Str t\<rparr>)]"
    and "refreshToken net s = (Inr t, saveTokenToFile t (s2\<lparr>accessToken := Str t\<rparr>))"
  using assms by (simp_all add: refreshToken_states_def refreshToken_def fetchAndSave_def Let_def)

lemma refreshToken_states_no_string:
  assumes "fetchAccessToken net (clearTokenFile s) = (Inr v, s2)" and "\<forall>t. v \<noteq> Str t"
  shows "refreshToken_states net s = [s, clearTokenFile s, s2, s2\<lparr>accessToken := v\<rparr>]"
    and "refreshToken net s = (Inl InvalidArgType, s2\<lparr>accessToken := v\<rparr>)"
  using assms
  by (cases v; simp add: refreshToken_states_def refreshToken_def fetchAndSave_def Let_def)+

lemma loadTokenFromFile_restart:
  assumes "tokenFile s = None"
  shows "loadTokenFromFile (restart s) = None"
  using assms by (simp add: restart_def OpenSkyClient_def loadTokenFromFile_def)

text \<open>
  Claim C4. Of the states \<^verbatim>\<open>refreshToken\<close> passes through, every one after
  \<^verbatim>\<open>clearTokenFile\<close> and before \<^verbatim>\<open>saveTokenToFile\<close> has no token file: the file is
  deleted before the request to the authentication endpoint is issued, and it stays
  absent while the request is awaited and until the new token is saved. A process
  restarted in any of these states loads nothing from the file and goes on to fetch a
  token. The first state is the one at entry, the last is the one \<^verbatim>\<open>refreshToken\<close>
  leaves, with the new token in the file when it returns. When it throws, it has passed
  three states, or four when the throw is that of the save.
\<close>

theorem refreshToken_clears_before_it_fetches:
  "hd (refreshToken_states net s) = s \<and>
   last (refreshToken_states net s) = snd (refreshToken net s) \<and>
   (\<forall>t s'. refreshToken net s = (Inr t, s') \<longrightarrow>
      length (refreshToken_states net s) = 5 \<and> tokenFile s' = Some t) \<and>
   (\<forall>e s'. refreshToken net s = (Inl e, s') \<longrightarrow>
      length (refreshToken_states net s) = (if e = InvalidArgType then 4 else 3) \<and>
      tokenFile s' = None) \<and>
   requests (refreshToken_states net s ! 1) = requests s \<and>
   (\<forall>i. 0 < i \<and> i < length (refreshToken_states net s) \<and> i < 4 \<longrightarrow>
      tokenFile (refreshToken_states net s ! i) = None \<and>
      loadTokenFromFile (restart (refreshToken_states net s ! i)) = None \<and>
      (\<forall>net'. ensureValidToken net' (restart (refreshToken_states net s ! i)) =
                fetchAndSave net' (restart (refreshToken_states net s ! i))))"
proof -
  have gone: "tokenFile (clearTokenFile s) = None"
    by (simp add: clearTokenFile_def)
  have window: "loadTokenFromFile (restart x) = None \<and>
      (\<forall>net'. ensureValidToken net' (restart x) = fetchAndSave net' (restart x))"
    if "tokenFile x = None" for x
    using loadTokenFromFile_restart [OF that]
    by (simp add: ensureValidToken_fetch_path truthy_string_None)
  obtain r s2 where f: "fetchAccessToken net (clearTokenFile s) = (r, s2)"
    by (cases "fetchAccessToken net (clearTokenFile s)")
  then have s2: "tokenFile s2 = None"
    using fetchAccessToken_tokenFile [of net "clearTokenFile s"] gone by simp
  show ?thesis
  proof (cases r)
    case (Inl e)
    with f have f': "fetchAccessToken net (clearTokenFile s) = (Inl e, s2)"
      by simp
    note sts = refreshToken_states_Inl [OF f']
    have "tokenFile (refreshToken_states net s ! i) = None"
      if "0 < i" and "i < length (refreshToken_states net s)" for i
    proof -
      from that have "i = 1 \<or> i = 2"
        by (auto simp: sts(1))
      then show ?thesis
        using gone s2 by (auto simp: sts(1))
    qed
    then show ?thesis
      using window s2 by (simp add: sts clearTokenFile_def)
  next
    case (Inr v)
    with f have f': "fetchAccessToken net (clearTokenFile s) = (Inr v, s2)"
      by simp
    show ?thesis
    proof (cases "\<exists>t. v = Str t")
      case True
      then obtain t where v: "v = Str t"
        by blast
      note sts = refreshToken_states_Str [OF f' [unfolded v]]
      have "tokenFile (refreshToken_states net s ! i) = None"
        if "0 < i" and "i < 4" for i
      proof -
        from that have "i = 1 \<or> i = 2 \<or> i = 3"
          by auto
        then show ?thesis
          using gone s2 by (auto simp: sts(1))
      qed
      then show ?thesis
        using window by (simp add: sts clearTokenFile_def saveTokenToFile_def)
    next
      case False
      then have v: "\<forall>t. v \<noteq> Str t"
        by simp
      note sts = refreshToken_states_no_string [OF f' v]
      have "tokenFile (refreshToken_states net s ! i) = None"
        if "0 < i" and "i < 4" for i
      proof -
        from that have "i = 1 \<or> i = 2 \<or> i = 3"
          by auto
        then show ?thesis
          using gone s2 by (auto simp: sts(1))
      qed
      then show ?thesis
        using window s2 by (simp add: sts clearTokenFile_def)
    qed
  qed
qed

theorem refreshToken_clears_before_it_fetches_witness:
  "tokenFile holding_client = Some ''T1'' \<and>
   refreshToken issuing_net holding_client =
     (Inr ''T2'', holding_client\<lparr>accessToken := Str ''T2'', tokenFile := Some ''T2'',
                    requests := [AuthPost ''id'' ''secret'']\<rparr>) \<and>
   length (refreshToken_states issuing_net holding_client) = 5 \<and>
   (0 :: nat) < 1 \<and> (1 :: nat) < 5 \<and> (1 :: nat) < 4 \<and>
   tokenFile (refreshToken_states issuing_net holding_client ! 1) = None \<and>
   loadTokenFromFile (restart (refreshToken_states issuing_net holding_client ! 1)) = None \<and>
   tokenFile (refreshToken_states issuing_net holding_client ! 3) = None \<and>
   tokenFile (refreshToken_states issuing_net holding_client ! 4) = Some ''T2''"
proof -
  have a: "refreshToken issuing_net holding_client =
     (Inr ''T2'', holding_client\<lparr>accessToken := Str ''T2'', tokenFile := Some ''T2'',
                    requests := [AuthPost ''id'' ''secret'']\<rparr>)"
    by (simp add: eval_defs)
  from refreshToken_clears_before_it_fetches [of issuing_net holding_client] a
  have len: "length (refreshToken_states issuing_net holding_client) = 5"
    by blast
  from refreshToken_clears_before_it_fetches [of issuing_net holding_client]
  have w: "\<forall>i. 0 < i \<and> i < length (refreshToken_states issuing_net holding_client) \<and> i < 4 \<longrightarrow>
      tokenFile (refreshToken_states issuing_net holding_client ! i) = None \<and>
      loadTokenFromFile (restart (refreshToken_states issuing_net holding_client ! i)) = None"
    by blast
  from w len have one:
    "tokenFile (refreshToken_states issuing_net holding_client ! 1) = None \<and>
     loadTokenFromFile (restart (refreshToken_states issuing_net holding_client ! 1)) = None"
    by simp
  from w len have three: "tokenFile (refreshToken_states issuing_net holding_client ! 3) = None"
    by simp
  have four: "tokenFile (refreshToken_states issuing_net holding_client ! 4) = Some ''T2''"
    by (simp add: refreshToken_states_def eval_defs)
  have tf: "tokenFile holding_client = Some ''T1''"
    by (simp add: eval_defs)
  from a len one three four tf show ?thesis
    by simp
qed

end
